theory Spec2Isabelle
  imports Main "HOL-Library.Word"
begin

section \<open>JavaScript strings and numbers\<close>

text \<open>
  The hooks live in one script, \<^verbatim>\<open>notify.mjs\<close>.  A JavaScript string is a sequence of
  UTF-16 code units, and \<^verbatim>\<open>slice\<close>, \<^verbatim>\<open>trim\<close> and \<^verbatim>\<open>split\<close> work on code units, so a string
  is a list of 16-bit words here.  \<open>str\<close> embeds an ASCII literal.
\<close>

type_synonym jschar = "16 word"
type_synonym jsstring = "jschar list"

definition str :: "string \<Rightarrow> jsstring" where
  "str cs = map of_char cs"

text \<open>
  \<^verbatim>\<open>trim\<close> and \<^verbatim>\<open>parseInt\<close> skip the code units of ECMAScript's WhiteSpace and
  LineTerminator productions.
\<close>

definition isWhiteSpace :: "jschar \<Rightarrow> bool" where
  "isWhiteSpace c \<longleftrightarrow>
     c \<in> set [0x0009, 0x000A, 0x000B, 0x000C, 0x000D, 0x0020, 0x00A0, 0x1680,
              0x2028, 0x2029, 0x202F, 0x205F, 0x3000, 0xFEFF]
     \<or> (0x2000 \<le> c \<and> c \<le> 0x200A)"

definition trim :: "jsstring \<Rightarrow> jsstring" where
  "trim s = rev (dropWhile isWhiteSpace (rev (dropWhile isWhiteSpace s)))"

text \<open>\<^verbatim>\<open>s.split(sep)[0]\<close> for a one-unit separator: the part before its first occurrence.\<close>

definition split_first :: "jschar \<Rightarrow> jsstring \<Rightarrow> jsstring" where
  "split_first sep s = takeWhile (\<lambda>c. c \<noteq> sep) s"

text \<open>
  Numbers.  \<^verbatim>\<open>Date.now()\<close> and everything computed from it are integers far below
  \<open>2^53\<close>, where double arithmetic is exact, so they are mathematical integers here and
  \<^verbatim>\<open>Math.floor(x / 1000)\<close> is \<open>x div 1000\<close> (which rounds towards minus infinity).
  \<open>Number_toString\<close> is \<^verbatim>\<open>n.toString()\<close> (and the conversion inside a template literal)
  for an integer: its decimal digits, with a minus sign when negative.
\<close>

definition digit_char :: "nat \<Rightarrow> jschar" where
  "digit_char d = of_nat (48 + d)"

function digits :: "nat \<Rightarrow> jsstring" where
  "digits n = (if n < 10 then [digit_char n] else digits (n div 10) @ [digit_char (n mod 10)])"
  by pat_completeness auto
termination
  by (relation "measure id") auto

declare digits.simps [simp del]

definition Number_toString :: "int \<Rightarrow> jsstring" where
  "Number_toString i = (if i < 0 then 0x2D # digits (nat (- i)) else digits (nat i))"

text \<open>
  \<^verbatim>\<open>parseInt(s)\<close> without a radix: skip leading white space, read an optional sign, switch
  to radix 16 after \<^verbatim>\<open>0x\<close> or \<^verbatim>\<open>0X\<close>, and read the longest prefix of digits.  No
  digit at all gives \<^verbatim>\<open>NaN\<close>, which is \<open>None\<close>.  The result is the exact integer the
  digits denote; the script's double is that integer as long as it stays below \<open>2^53\<close>.
\<close>

definition digitValue :: "jschar \<Rightarrow> nat option" where
  "digitValue c =
     (if 0x30 \<le> c \<and> c \<le> 0x39 then Some (unat c - 48)
      else if 0x61 \<le> c \<and> c \<le> 0x7A then Some (unat c - 87)
      else if 0x41 \<le> c \<and> c \<le> 0x5A then Some (unat c - 55)
      else None)"

definition isRadixDigit :: "nat \<Rightarrow> jschar \<Rightarrow> bool" where
  "isRadixDigit R c = (case digitValue c of None \<Rightarrow> False | Some v \<Rightarrow> v < R)"

definition radixValue :: "nat \<Rightarrow> jsstring \<Rightarrow> nat" where
  "radixValue R Z = foldl (\<lambda>a c. a * R + (case digitValue c of None \<Rightarrow> 0 | Some v \<Rightarrow> v)) 0 Z"

definition parseDigits :: "nat \<Rightarrow> jsstring \<Rightarrow> nat option" where
  "parseDigits R S =
     (let Z = takeWhile (isRadixDigit R) S
      in if Z = [] then None else Some (radixValue R Z))"

fun stripPrefix :: "jsstring \<Rightarrow> nat option" where
  "stripPrefix (a # b # S) =
     (if a = 0x30 \<and> (b = 0x78 \<or> b = 0x58) then parseDigits 16 S
      else parseDigits 10 (a # b # S))"
| "stripPrefix S = parseDigits 10 S"

fun parseSign :: "jsstring \<Rightarrow> int option" where
  "parseSign (c # S) =
     (if c = 0x2D then map_option (\<lambda>n. - int n) (stripPrefix S)
      else if c = 0x2B then map_option int (stripPrefix S)
      else map_option int (stripPrefix (c # S)))"
| "parseSign [] = None"

definition parseInt :: "jsstring \<Rightarrow> int option" where
  "parseInt s = parseSign (dropWhile isWhiteSpace s)"

section \<open>Configuration and message bundles\<close>

definition durationThreshold :: int where
  "durationThreshold = 60"

definition appName :: jsstring where
  "appName = str ''Claude Code''"

text \<open>
  \<^verbatim>\<open>MESSAGES\<close> maps a language code to its bundle, a bundle maps a key to its text.  Both
  are association lists of the own properties of the object literals, in source order;
  texts outside ASCII are given by their code units.  A lookup sees these own properties
  only: the members every object inherits from \<^verbatim>\<open>Object.prototype\<close> are not modelled, and
  none of them is a key the script asks for.
\<close>

type_synonym message_bundle = "(jsstring \<times> jsstring) list"

definition MESSAGES_en :: message_bundle where
  "MESSAGES_en =
     [(str ''completed'', str ''Completed''),
      (str ''seconds'', str ''seconds''),
      (str ''permissionRequest'', str ''Permission Request''),
      (str ''clickToFocus'', str ''Click to focus terminal'')]"

definition MESSAGES_ko :: message_bundle where
  "MESSAGES_ko =
     [(str ''completed'', [0xC644, 0xB8CC]),
      (str ''seconds'', [0xCD08]),
      (str ''permissionRequest'', [0xAD8C, 0xD55C, 0x0020, 0xC694, 0xCCAD]),
      (str ''clickToFocus'',
         [0xD074, 0xB9AD, 0xD558, 0xC5EC, 0x0020, 0xD130, 0xBBF8, 0xB110, 0xB85C, 0x0020,
          0xC774, 0xB3D9])]"

definition MESSAGES_ja :: message_bundle where
  "MESSAGES_ja =
     [(str ''completed'', [0x5B8C, 0x4E86]),
      (str ''seconds'', [0x79D2]),
      (str ''permissionRequest'', [0x6A29, 0x9650, 0x30EA, 0x30AF, 0x30A8, 0x30B9, 0x30C8]),
      (str ''clickToFocus'',
         [0x30AF, 0x30EA, 0x30C3, 0x30AF, 0x3057, 0x3066, 0x30BF, 0x30FC, 0x30DF, 0x30CA,
          0x30EB, 0x306B, 0x30D5, 0x30A9, 0x30FC, 0x30AB, 0x30B9])]"

definition MESSAGES_zh :: message_bundle where
  "MESSAGES_zh =
     [(str ''completed'', [0x5B8C, 0x6210]),
      (str ''seconds'', [0x79D2]),
      (str ''permissionRequest'', [0x6743, 0x9650, 0x8BF7, 0x6C42]),
      (str ''clickToFocus'', [0x70B9, 0x51FB, 0x805A, 0x7126, 0x7EC8, 0x7AEF])]"

definition MESSAGES_de :: message_bundle where
  "MESSAGES_de =
     [(str ''completed'', str ''Abgeschlossen''),
      (str ''seconds'', str ''Sekunden''),
      (str ''permissionRequest'', str ''Berechtigungsanfrage''),
      (str ''clickToFocus'', str ''Klicken zum Fokussieren des Terminals'')]"

definition MESSAGES_fr :: message_bundle where
  "MESSAGES_fr =
     [(str ''completed'', str ''Termin'' @ [0x00E9]),
      (str ''seconds'', str ''secondes''),
      (str ''permissionRequest'', str ''Demande de permission''),
      (str ''clickToFocus'', str ''Cliquer pour focus le terminal'')]"

definition MESSAGES_es :: message_bundle where
  "MESSAGES_es =
     [(str ''completed'', str ''Completado''),
      (str ''seconds'', str ''segundos''),
      (str ''permissionRequest'', str ''Solicitud de permiso''),
      (str ''clickToFocus'', str ''Clic para enfocar la terminal'')]"

definition MESSAGES :: "(jsstring \<times> message_bundle) list" where
  "MESSAGES =
     [(str ''en'', MESSAGES_en), (str ''ko'', MESSAGES_ko), (str ''ja'', MESSAGES_ja),
      (str ''zh'', MESSAGES_zh), (str ''de'', MESSAGES_de), (str ''fr'', MESSAGES_fr),
      (str ''es'', MESSAGES_es)]"

section \<open>The host\<close>

text \<open>
  What the script reads from the machine it runs on.  \<open>execSync\<close> gives the standard
  output of a synchronous child process, or \<open>None\<close> when the call throws (the utility is
  missing, exits with an error, or runs past the timeout it was given).  A call is the
  command together with the \<^verbatim>\<open>timeout\<close> option, in milliseconds, passed with it.
\<close>

datatype os = Linux | Darwin | Win32 | OtherOS

datatype command =
    GetCulture
  | XdotoolGetActiveWindow
  | OsascriptFrontmostBundleId
  | PowershellGetForegroundWindow

record exec_call =
  command :: command
  exec_timeout :: nat

text \<open>
  \<^verbatim>\<open>spawn\<close> starts a child process and does not wait for it.  The script passes
  \<^verbatim>\<open>detached\<close> and \<^verbatim>\<open>stdio\<close>; \<open>spawn_timeout\<close> is the \<^verbatim>\<open>timeout\<close> option of the call,
  \<open>None\<close> when the call passes none.
\<close>

datatype activation =
    XdotoolWindowActivate jsstring
  | OsascriptActivate jsstring
  | PowershellSetForegroundWindow jsstring

record spawn_call =
  activation :: activation
  detached :: bool
  stdio :: jsstring
  spawn_timeout :: "nat option"

record host =
  platform :: os
  execSync :: "exec_call \<Rightarrow> jsstring option"
  spawn_throws :: "spawn_call \<Rightarrow> bool"
  env_LANG :: "jsstring option"
  env_LANGUAGE :: "jsstring option"
  env_LC_ALL :: "jsstring option"
  intl_locale :: "jsstring option"
  toLowerCase :: "jsstring \<Rightarrow> jsstring"
  now :: int
  icon_exists :: bool

text \<open>
  \<open>intl_locale\<close> is \<^verbatim>\<open>Intl.DateTimeFormat().resolvedOptions().locale\<close>, \<open>None\<close> when that
  throws; \<open>toLowerCase\<close> is the Unicode lower-casing of the runtime; \<open>now\<close> is
  \<^verbatim>\<open>Date.now()\<close>; \<open>icon_exists\<close> says whether the icon file is on disk.
\<close>

section \<open>Locale\<close>

text \<open>\<^verbatim>\<open>a || b\<close> on strings that may be undefined: the first that is defined and not empty.\<close>

fun truthy_str :: "jsstring option \<Rightarrow> bool" where
  "truthy_str None = False"
| "truthy_str (Some s) = (s \<noteq> [])"

definition or_str :: "jsstring option \<Rightarrow> jsstring option \<Rightarrow> jsstring option" where
  "or_str a b = (if truthy_str a then a else b)"

text \<open>
  \<open>detected_language\<close> is the value of \<^verbatim>\<open>lang\<close> after the \<^verbatim>\<open>try\<close> block of
  \<^verbatim>\<open>getSystemLanguage\<close>; only \<^verbatim>\<open>execSync\<close> and the \<^verbatim>\<open>Intl\<close> query can throw there.
\<close>

definition detected_language :: "host \<Rightarrow> jsstring" where
  "detected_language h =
     (if platform h = Win32 then
        (case execSync h \<lparr>command = GetCulture, exec_timeout = 3000\<rparr> of
           Some result \<Rightarrow> toLowerCase h (trim result)
         | None \<Rightarrow>
             (case intl_locale h of
                Some locale \<Rightarrow> toLowerCase h (split_first 0x2D locale)
              | None \<Rightarrow> str ''en''))
      else
        (let envLang =
           (case or_str (or_str (or_str (env_LANG h) (env_LANGUAGE h)) (env_LC_ALL h))
                   (Some [])
            of Some e \<Rightarrow> e | None \<Rightarrow> [])
         in toLowerCase h (split_first 0x2E (split_first 0x5F envLang))))"

definition getSystemLanguage :: "host \<Rightarrow> jsstring" where
  "getSystemLanguage h =
     (let lang = detected_language h
      in if map_of MESSAGES lang \<noteq> None then lang else str ''en'')"

definition t :: "host \<Rightarrow> jsstring \<Rightarrow> jsstring" where
  "t h key =
     (let lang = getSystemLanguage h;
          own = (case map_of MESSAGES lang of None \<Rightarrow> None | Some b \<Rightarrow> map_of b key);
          base = map_of MESSAGES_en key
      in case or_str own base of
           Some text \<Rightarrow> if text \<noteq> [] then text else key
         | None \<Rightarrow> key)"

section \<open>Terminal focus\<close>

fun getTerminalWindowId_call :: "os \<Rightarrow> exec_call option" where
  "getTerminalWindowId_call Linux = Some \<lparr>command = XdotoolGetActiveWindow, exec_timeout = 3000\<rparr>"
| "getTerminalWindowId_call Darwin =
     Some \<lparr>command = OsascriptFrontmostBundleId, exec_timeout = 3000\<rparr>"
| "getTerminalWindowId_call Win32 =
     Some \<lparr>command = PowershellGetForegroundWindow, exec_timeout = 3000\<rparr>"
| "getTerminalWindowId_call OtherOS = None"

definition getTerminalWindowId :: "host \<Rightarrow> jsstring option" where
  "getTerminalWindowId h =
     (case getTerminalWindowId_call (platform h) of
        None \<Rightarrow> None
      | Some call \<Rightarrow> (case execSync h call of None \<Rightarrow> None | Some out \<Rightarrow> Some (trim out)))"

section \<open>State of the machine\<close>

text \<open>
  The script keeps its session state in files of one directory,
  \<^verbatim>\<open>join(tmpdir(), 'claude-code-notifier')\<close>.  \<open>tmpdir\<close> says whether that directory exists
  and \<open>files\<close> gives the text of each file in it, by file name.  File names are taken as
  they are: a session identifier that \<^verbatim>\<open>join\<close> would normalise (one with a path separator)
  and failures of the file system itself are outside this model.  \<open>notifications\<close> are the
  calls made to \<^verbatim>\<open>notifier.notify\<close>, oldest first, and \<open>spawned\<close> the child processes
  started by \<^verbatim>\<open>spawn\<close>.
\<close>

record notification =
  title :: jsstring
  message :: jsstring
  icon :: bool
  sound :: bool
  wait :: bool
  timeout :: nat
  appID :: jsstring
  focus_windowId :: "jsstring option"

text \<open>
  The fields up to \<open>appID\<close> are the object handed to the backend (\<open>icon\<close> says whether
  the icon path or \<^verbatim>\<open>undefined\<close> was passed); \<open>focus_windowId\<close> is the \<^verbatim>\<open>options.windowId\<close>
  that the click callback of this call has captured, \<open>None\<close> for \<^verbatim>\<open>null\<close>.
\<close>

record state =
  tmpdir :: bool
  files :: "jsstring \<Rightarrow> jsstring option"
  notifications :: "notification list"
  spawned :: "spawn_call list"

datatype error = TypeError | SpawnError

definition existsSync :: "jsstring \<Rightarrow> state \<Rightarrow> bool" where
  "existsSync file s \<longleftrightarrow> files s file \<noteq> None"

definition writeFileSync :: "jsstring \<Rightarrow> jsstring \<Rightarrow> state \<Rightarrow> state" where
  "writeFileSync file data s = s\<lparr>files := (files s)(file \<mapsto> data)\<rparr>"

definition unlinkSync :: "jsstring \<Rightarrow> state \<Rightarrow> state" where
  "unlinkSync file s = s\<lparr>files := (files s)(file := None)\<rparr>"

definition getTempDir :: "state \<Rightarrow> state" where
  "getTempDir s = (if \<not> tmpdir s then s\<lparr>tmpdir := True\<rparr> else s)"

section \<open>Standard input\<close>

text \<open>
  A value read by \<^verbatim>\<open>JSON.parse\<close>.  An object is the list of its own properties.  The
  script never computes with a number: it only tests one for truth and prints it, so a
  number is kept as the text \<^verbatim>\<open>toString\<close> gives for it, zero being \<^verbatim>\<open>0\<close>.
\<close>

datatype json =
    JNull
  | JBool bool
  | JNum jsstring
  | JStr jsstring
  | JArr "json list"
  | JObj "(jsstring \<times> json) list"

text \<open>
  \<open>readStdin\<close> takes the outcome of \<^verbatim>\<open>JSON.parse\<close> on the text of standard input:
  \<open>None\<close> when it throws, which the handler turns into the empty object.
\<close>

definition readStdin :: "json option \<Rightarrow> json" where
  "readStdin parsed = (case parsed of Some v \<Rightarrow> v | None \<Rightarrow> JObj [])"

text \<open>
  Reading a property.  It throws on \<^verbatim>\<open>null\<close>; an object gives its own property or
  \<^verbatim>\<open>undefined\<close> (\<open>None\<close>); the other values have none of the properties the script asks
  for (\<^verbatim>\<open>session_id\<close>, \<^verbatim>\<open>prompt\<close>, \<^verbatim>\<open>tool_name\<close>, \<^verbatim>\<open>tool_input\<close>, \<^verbatim>\<open>file_path\<close>,
  \<^verbatim>\<open>command\<close>).
\<close>

fun get :: "json \<Rightarrow> jsstring \<Rightarrow> error + json option" where
  "get JNull key = Inl TypeError"
| "get (JObj props) key = Inr (map_of props key)"
| "get v key = Inr None"

fun truthy :: "json option \<Rightarrow> bool" where
  "truthy None = False"
| "truthy (Some JNull) = False"
| "truthy (Some (JBool b)) = b"
| "truthy (Some (JNum n)) = (n \<noteq> str ''0'')"
| "truthy (Some (JStr s)) = (s \<noteq> [])"
| "truthy (Some (JArr xs)) = True"
| "truthy (Some (JObj props)) = True"

text \<open>\<^verbatim>\<open>v || d\<close> for a default \<open>d\<close>.\<close>

definition or_json :: "json option \<Rightarrow> json \<Rightarrow> json" where
  "or_json v d = (case v of Some x \<Rightarrow> if truthy v then x else d | None \<Rightarrow> d)"

text \<open>
  The conversion to a string inside a template literal.  An array joins its elements
  with commas, \<^verbatim>\<open>null\<close> elements printing as nothing; an object prints through the
  inherited \<^verbatim>\<open>toString\<close> unless an own property of that name hides it, in which case the
  conversion throws.
\<close>

fun ToString :: "json \<Rightarrow> error + jsstring" and Array_join :: "json list \<Rightarrow> error + jsstring" where
  "ToString JNull = Inr (str ''null'')"
| "ToString (JBool b) = Inr (if b then str ''true'' else str ''false'')"
| "ToString (JNum n) = Inr n"
| "ToString (JStr s) = Inr s"
| "ToString (JArr xs) = Array_join xs"
| "ToString (JObj props) =
     (if map_of props (str ''toString'') \<noteq> None then Inl TypeError
      else Inr (str ''[object Object]''))"
| "Array_join [] = Inr []"
| "Array_join (x # xs) =
     (case (if x = JNull then Inr [] else ToString x) of
        Inl e \<Rightarrow> Inl e
      | Inr a \<Rightarrow>
          (if xs = [] then Inr a
           else (case Array_join xs of Inl e \<Rightarrow> Inl e | Inr b \<Rightarrow> Inr (a @ str '','' @ b))))"

text \<open>
  \<^verbatim>\<open>v.slice(0, 50)\<close>: the first 50 code units of a string, the first 50 elements of an
  array; no other value has a \<^verbatim>\<open>slice\<close> method.
\<close>

fun slice50 :: "json \<Rightarrow> error + json" where
  "slice50 (JStr s) = Inr (JStr (take 50 s))"
| "slice50 (JArr xs) = Inr (JArr (take 50 xs))"
| "slice50 v = Inl TypeError"

text \<open>The name \<^verbatim>\<open>`${type}-${sessionId}`\<close> of a session's file, and \<open>getTempFile\<close>.\<close>

definition file_name :: "jsstring \<Rightarrow> jsstring \<Rightarrow> jsstring" where
  "file_name type sid = type @ str ''-'' @ sid"

definition getTempFile :: "json \<Rightarrow> jsstring \<Rightarrow> state \<Rightarrow> error + jsstring \<times> state" where
  "getTempFile sessionId type s =
     (let s' = getTempDir s
      in case ToString sessionId of
           Inl e \<Rightarrow> Inl e
         | Inr sid \<Rightarrow> Inr (file_name type sid, s'))"

section \<open>Notification and focus\<close>

fun focusTerminal_call :: "os \<Rightarrow> jsstring \<Rightarrow> spawn_call option" where
  "focusTerminal_call Linux windowId =
     Some \<lparr>activation = XdotoolWindowActivate windowId, detached = True,
           stdio = str ''ignore'', spawn_timeout = None\<rparr>"
| "focusTerminal_call Darwin windowId =
     Some \<lparr>activation = OsascriptActivate windowId, detached = True,
           stdio = str ''ignore'', spawn_timeout = None\<rparr>"
| "focusTerminal_call Win32 windowId =
     Some \<lparr>activation = PowershellSetForegroundWindow windowId, detached = True,
           stdio = str ''ignore'', spawn_timeout = None\<rparr>"
| "focusTerminal_call OtherOS windowId = None"

definition spawn :: "host \<Rightarrow> spawn_call \<Rightarrow> state \<Rightarrow> error + state" where
  "spawn h call s =
     (if spawn_throws h call then Inl SpawnError else Inr (s\<lparr>spawned := spawned s @ [call]\<rparr>))"

definition focusTerminal :: "host \<Rightarrow> jsstring option \<Rightarrow> state \<Rightarrow> state" where
  "focusTerminal h windowId s =
     (case windowId of
        None \<Rightarrow> s
      | Some w \<Rightarrow>
          if w = [] then s
          else (case focusTerminal_call (platform h) w of
                  None \<Rightarrow> s
                | Some call \<Rightarrow> (case spawn h call s of Inl e \<Rightarrow> s | Inr s' \<Rightarrow> s')))"

text \<open>
  \<open>notify\<close> hands the notification to the backend, whose call is taken to return
  normally: the backend reports its failures to the callback, which ignores them.
\<close>

record notify_options =
  opt_windowId :: "jsstring option"
  opt_wait :: "bool option"
  opt_timeout :: "nat option"

definition notify :: "host \<Rightarrow> jsstring \<Rightarrow> jsstring \<Rightarrow> notify_options \<Rightarrow> state \<Rightarrow> state" where
  "notify h ttl msg options s =
     s\<lparr>notifications := notifications s @
        [\<lparr>title = ttl, message = msg, icon = icon_exists h, sound = True,
          wait = (case opt_wait options of Some w \<Rightarrow> w | None \<Rightarrow> True),
          timeout = (case opt_timeout options of Some n \<Rightarrow> n | None \<Rightarrow> 10),
          appID = appName, focus_windowId = opt_windowId options\<rparr>]\<rparr>"

text \<open>
  The callback of a notification, run when the backend reports back with \<open>response\<close> and
  \<^verbatim>\<open>metadata.activationType\<close>.
\<close>

definition notify_callback ::
  "host \<Rightarrow> notification \<Rightarrow> jsstring option \<Rightarrow> jsstring option \<Rightarrow> state \<Rightarrow> state" where
  "notify_callback h n response activationType s =
     (if response = Some (str ''activate'') \<or> response = Some (str ''clicked'')
         \<or> activationType = Some (str ''contentsClicked'')
      then (if truthy_str (focus_windowId n) then focusTerminal h (focus_windowId n) s else s)
      else s)"

section \<open>Hook handlers\<close>

text \<open>
  Each handler takes the host, the outcome of parsing standard input and the state
  before, and gives the state after, or the error it throws.  A handler is an
  \<^verbatim>\<open>async\<close> function called without a handler for its rejection, so an error thrown
  in it ends the process.  \<open>and_then\<close> runs the rest of a handler unless a step has thrown.
\<close>

definition and_then :: "error + 'a \<Rightarrow> ('a \<Rightarrow> error + 'b) \<Rightarrow> error + 'b" where
  "and_then m f = (case m of Inl e \<Rightarrow> Inl e | Inr x \<Rightarrow> f x)"

text \<open>
  \<open>startTimer\<close> (hook UserPromptSubmit).  \<^verbatim>\<open>writeFileSync\<close> accepts a string, so the
  slice of a prompt that is an array is refused there.
\<close>

definition write_prompt :: "json \<Rightarrow> jsstring \<Rightarrow> state \<Rightarrow> error + state" where
  "write_prompt prompt promptFile s =
     (if truthy (Some prompt) then
        and_then (slice50 prompt)
          (\<lambda>excerpt. (case excerpt of
                         JStr text \<Rightarrow> Inr (writeFileSync promptFile text s)
                       | _ \<Rightarrow> Inl TypeError))
      else Inr s)"

definition write_window :: "jsstring option \<Rightarrow> jsstring \<Rightarrow> state \<Rightarrow> state" where
  "write_window window windowFile s =
     (if truthy_str window
      then (case window of Some w \<Rightarrow> writeFileSync windowFile w s | None \<Rightarrow> s)
      else s)"

definition startTimer :: "host \<Rightarrow> json option \<Rightarrow> state \<Rightarrow> error + state" where
  "startTimer h parsed s =
     (let input = readStdin parsed in
      and_then (get input (str ''session_id'')) (\<lambda>session_id.
      and_then (get input (str ''prompt'')) (\<lambda>input_prompt.
      let sessionId = or_json session_id (JStr (str ''default''));
          prompt = or_json input_prompt (JStr [])
      in
      and_then (getTempFile sessionId (str ''start'') s) (\<lambda>(startFile, s1).
      and_then (getTempFile sessionId (str ''prompt'') s1) (\<lambda>(promptFile, s2).
      and_then (getTempFile sessionId (str ''window'') s2) (\<lambda>(windowFile, s3).
      let s4 = writeFileSync startFile (Number_toString (now h)) s3 in
      and_then (write_prompt prompt promptFile s4) (\<lambda>s5.
      Inr (write_window (getTerminalWindowId h) windowFile s5))))))))"

text \<open>
  \<open>checkDuration\<close> (hook Stop).  \<open>checkDuration_message\<close> is the text it shows.  A start
  file that does not begin with a number makes the duration \<^verbatim>\<open>NaN\<close> (\<open>None\<close>), which
  compares false with the threshold.  Every operation of the \<^verbatim>\<open>try\<close> block returns
  normally here, so its empty handler is never entered.
\<close>

definition checkDuration_message :: "host \<Rightarrow> int \<Rightarrow> jsstring option \<Rightarrow> jsstring" where
  "checkDuration_message h duration prompt =
     (case prompt of
        None \<Rightarrow>
          t h (str ''completed'') @ str '' ('' @ Number_toString duration
            @ t h (str ''seconds'') @ str '')''
      | Some excerpt \<Rightarrow>
          t h (str ''completed'') @ str '' ('' @ Number_toString duration
            @ t h (str ''seconds'') @ str '')'' @ [0x000A] @ excerpt @ str ''...'')"

definition checkDuration_notify ::
  "host \<Rightarrow> int option \<Rightarrow> jsstring \<Rightarrow> jsstring \<Rightarrow> state \<Rightarrow> state" where
  "checkDuration_notify h duration promptFile windowFile s =
     (case duration of
        None \<Rightarrow> s
      | Some d \<Rightarrow>
          if d \<ge> durationThreshold then
            notify h appName (checkDuration_message h d (files s promptFile))
              \<lparr>opt_windowId = files s windowFile, opt_wait = None, opt_timeout = None\<rparr> s
          else s)"

definition cleanup :: "jsstring \<Rightarrow> jsstring \<Rightarrow> jsstring \<Rightarrow> state \<Rightarrow> state" where
  "cleanup startFile promptFile windowFile s =
     (let s1 = unlinkSync startFile s;
          s2 = (if existsSync promptFile s1 then unlinkSync promptFile s1 else s1)
      in if existsSync windowFile s2 then unlinkSync windowFile s2 else s2)"

definition checkDuration :: "host \<Rightarrow> json option \<Rightarrow> state \<Rightarrow> error + state" where
  "checkDuration h parsed s =
     (let input = readStdin parsed in
      and_then (get input (str ''session_id'')) (\<lambda>session_id.
      let sessionId = or_json session_id (JStr (str ''default'')) in
      and_then (getTempFile sessionId (str ''start'') s) (\<lambda>(startFile, s1).
      and_then (getTempFile sessionId (str ''prompt'') s1) (\<lambda>(promptFile, s2).
      and_then (getTempFile sessionId (str ''window'') s2) (\<lambda>(windowFile, s3).
      (case files s3 startFile of
         None \<Rightarrow> Inr s3
       | Some content \<Rightarrow>
           (let startTime = parseInt content;
                duration = map_option (\<lambda>start. (now h - start) div 1000) startTime;
                s4 = checkDuration_notify h duration promptFile windowFile s3
            in Inr (cleanup startFile promptFile windowFile s4))))))))"

text \<open>\<open>permissionRequest\<close> (hook PermissionRequest).\<close>

definition permissionRequest_message ::
  "host \<Rightarrow> json \<Rightarrow> json \<Rightarrow> error + jsstring" where
  "permissionRequest_message h toolName shortDetail =
     and_then (ToString toolName) (\<lambda>toolName_text.
       if truthy (Some shortDetail) then
         and_then (ToString shortDetail) (\<lambda>shortDetail_text.
           Inr (t h (str ''permissionRequest'') @ str '': '' @ toolName_text
                  @ [0x000A] @ shortDetail_text @ str ''...''))
       else Inr (t h (str ''permissionRequest'') @ str '': '' @ toolName_text))"

definition permissionRequest :: "host \<Rightarrow> json option \<Rightarrow> state \<Rightarrow> error + state" where
  "permissionRequest h parsed s =
     (let input = readStdin parsed in
      and_then (get input (str ''tool_name'')) (\<lambda>tool_name.
      and_then (get input (str ''tool_input'')) (\<lambda>tool_input.
      and_then (get input (str ''session_id'')) (\<lambda>session_id.
      let toolName = or_json tool_name (JStr (str ''unknown''));
          toolInput = or_json tool_input (JObj []);
          sessionId = or_json session_id (JStr (str ''default''))
      in
      and_then (get toolInput (str ''file_path'')) (\<lambda>file_path.
      and_then (get toolInput (str ''command'')) (\<lambda>cmd.
      let detail = (if truthy file_path then or_json file_path (JStr [])
                    else or_json cmd (JStr [])) in
      and_then (slice50 detail) (\<lambda>shortDetail.
      and_then (getTempFile sessionId (str ''window'') s) (\<lambda>(windowFile, s1).
      and_then (permissionRequest_message h toolName shortDetail) (\<lambda>msg.
      Inr (notify h appName msg
             \<lparr>opt_windowId = files s1 windowFile, opt_wait = None, opt_timeout = Some 30\<rparr>
             s1))))))))))"

section \<open>Payloads\<close>

text \<open>
  The session a payload names: the text that \<^verbatim>\<open>input.session_id || 'default'\<close> prints
  as inside a file name.  It is an error for the payload \<^verbatim>\<open>null\<close>, which has no
  properties to read.
\<close>

definition sessionId_of :: "json \<Rightarrow> error + jsstring" where
  "sessionId_of input =
     (case get input (str ''session_id'') of
        Inl e \<Rightarrow> Inl e
      | Inr session_id \<Rightarrow> ToString (or_json session_id (JStr (str ''default''))))"

text \<open>A property that the payload schema declares as a string: absent, or a string.\<close>

fun string_or_absent :: "json option \<Rightarrow> bool" where
  "string_or_absent None = True"
| "string_or_absent (Some (JStr s)) = True"
| "string_or_absent (Some v) = False"

text \<open>
  The payload of a permission request: an object whose \<^verbatim>\<open>session_id\<close> and
  \<^verbatim>\<open>tool_name\<close> are strings when present and whose \<^verbatim>\<open>tool_input\<close>, when present, is an
  object with \<^verbatim>\<open>file_path\<close> and \<^verbatim>\<open>command\<close> strings when present.
\<close>

fun tool_input_ok :: "json option \<Rightarrow> bool" where
  "tool_input_ok None = True"
| "tool_input_ok (Some (JObj props)) =
     (string_or_absent (map_of props (str ''file_path''))
      \<and> string_or_absent (map_of props (str ''command'')))"
| "tool_input_ok (Some v) = False"

fun permission_payload :: "json \<Rightarrow> bool" where
  "permission_payload (JObj props) =
     (string_or_absent (map_of props (str ''session_id''))
      \<and> string_or_absent (map_of props (str ''tool_name''))
      \<and> tool_input_ok (map_of props (str ''tool_input'')))"
| "permission_payload v = False"


fun text_of :: "json option \<Rightarrow> jsstring" where
  "text_of (Some (JStr s)) = s"
| "text_of v = []"


section \<open>An example machine\<close>

text \<open>
  A Linux host with a Korean locale whose \<^verbatim>\<open>xdotool\<close> answers, and a state in which
  session \<^verbatim>\<open>s1\<close> was started 65 seconds before the host's clock.
\<close>

definition ascii_lower :: "jsstring \<Rightarrow> jsstring" where
  "ascii_lower s = map (\<lambda>c. if 0x41 \<le> c \<and> c \<le> 0x5A then c + 0x20 else c) s"

definition example_host :: host where
  "example_host =
     \<lparr>platform = Linux,
      execSync = (\<lambda>call. if command call = XdotoolGetActiveWindow
                         then Some (str ''12345'' @ [0x000A]) else None),
      spawn_throws = (\<lambda>call. False),
      env_LANG = Some (str ''ko_KR.UTF-8''), env_LANGUAGE = None, env_LC_ALL = None,
      intl_locale = None, toLowerCase = ascii_lower, now = 1700000065000,
      icon_exists = True\<rparr>"

definition example_state :: state where
  "example_state =
     \<lparr>tmpdir = True,
      files = [str ''start-s1'' \<mapsto> str ''1700000000000'',
               str ''prompt-s1'' \<mapsto> str ''fix the bug'',
               str ''window-s1'' \<mapsto> str ''12345''],
      notifications = [], spawned = []\<rparr>"

definition empty_state :: state where
  "empty_state = \<lparr>tmpdir = False, files = Map.empty, notifications = [], spawned = []\<rparr>"

definition example_stop :: json where
  "example_stop = JObj [(str ''session_id'', JStr (str ''s1''))]"







section \<open>Properties\<close>

subsection \<open>Timestamps survive the file\<close>

text \<open>
  What \<open>startTimer\<close> writes, \<^verbatim>\<open>Date.now().toString()\<close>, is read back by \<^verbatim>\<open>parseInt\<close> as the
  same number.
\<close>

lemma digit_cases:
  "d < 10 \<Longrightarrow> d \<in> {0, 1, 2, 3, 4, 5, 6, 7, 8, 9::nat}"
  by auto

lemma digitValue_digit_char: "d < 10 \<Longrightarrow> digitValue (digit_char d) = Some d"
  by (drule digit_cases) (auto simp: digitValue_def digit_char_def)

lemma digit_char_plain:
  "d < 10 \<Longrightarrow> \<not> isWhiteSpace (digit_char d) \<and> digit_char d \<noteq> 0x2D \<and> digit_char d \<noteq> 0x2B
     \<and> digit_char d \<noteq> 0x78 \<and> digit_char d \<noteq> 0x58"
  by (drule digit_cases) (auto simp: isWhiteSpace_def digit_char_def)

lemma digits_decimal: "c \<in> set (digits n) \<Longrightarrow> \<exists>d<10. c = digit_char d"
proof (induction n arbitrary: c rule: digits.induct)
  case (1 n)
  show ?case
  proof (cases "n < 10")
    case True
    with "1.prems" show ?thesis
      by (subst (asm) digits.simps) auto
  next
    case False
    with "1.prems" have "c \<in> set (digits (n div 10)) \<or> c = digit_char (n mod 10)"
      by (subst (asm) digits.simps) auto
    with "1.IH" [OF False] show ?thesis
      by (metis mod_less_divisor zero_less_numeral)
  qed
qed

lemma digits_nonempty: "digits n \<noteq> []"
  by (subst digits.simps) simp

lemma radixValue_snoc:
  "radixValue R (Z @ [c]) = radixValue R Z * R + (case digitValue c of None \<Rightarrow> 0 | Some v \<Rightarrow> v)"
  by (simp add: radixValue_def)

lemma radixValue_digits: "radixValue 10 (digits n) = n"
proof (induction n rule: digits.induct)
  case (1 n)
  show ?case
  proof (cases "n < 10")
    case True
    then show ?thesis
      by (subst digits.simps) (simp add: radixValue_def digitValue_digit_char)
  next
    case False
    then have "digits n = digits (n div 10) @ [digit_char (n mod 10)]"
      by (subst digits.simps) simp
    with "1.IH" [OF False] show ?thesis
      by (simp add: radixValue_snoc digitValue_digit_char)
  qed
qed

lemma parseDigits_digits: "parseDigits 10 (digits n) = Some n"
proof -
  have "\<forall>c \<in> set (digits n). isRadixDigit 10 c"
  proof
    fix c
    assume "c \<in> set (digits n)"
    then obtain d where "d < 10" and "c = digit_char d"
      using digits_decimal by blast
    then show "isRadixDigit 10 c"
      by (simp add: isRadixDigit_def digitValue_digit_char)
  qed
  then have whole: "takeWhile (isRadixDigit 10) (digits n) = digits n"
    by (simp add: takeWhile_eq_all_conv)
  show ?thesis
    unfolding parseDigits_def whole Let_def
    by (simp add: digits_nonempty radixValue_digits)
qed

lemma digits_plain:
  assumes "c \<in> set (digits n)"
  shows "\<not> isWhiteSpace c" and "c \<noteq> 0x2D" and "c \<noteq> 0x2B" and "c \<noteq> 0x78" and "c \<noteq> 0x58"
proof -
  from assms obtain d where d: "d < 10" and c: "c = digit_char d"
    using digits_decimal by blast
  from digit_char_plain [OF d]
  show "\<not> isWhiteSpace c" and "c \<noteq> 0x2D" and "c \<noteq> 0x2B" and "c \<noteq> 0x78" and "c \<noteq> 0x58"
    unfolding c by simp_all
qed

lemma stripPrefix_digits: "stripPrefix (digits n) = Some n"
proof (cases "digits n")
  case Nil
  with digits_nonempty show ?thesis
    by simp
next
  case outer: (Cons a rest)
  show ?thesis
  proof (cases rest)
    case Nil
    with outer have "stripPrefix (digits n) = parseDigits 10 (digits n)"
      by simp
    then show ?thesis
      by (simp only: parseDigits_digits)
  next
    case (Cons b S)
    with outer have "b \<in> set (digits n)"
      by simp
    then have "b \<noteq> 0x78" and "b \<noteq> 0x58"
      by (rule digits_plain)+
    with outer Cons have "stripPrefix (digits n) = parseDigits 10 (digits n)"
      by simp
    then show ?thesis
      by (simp only: parseDigits_digits)
  qed
qed

lemma parseSign_digits: "parseSign (digits n) = Some (int n)"
proof (cases "digits n")
  case Nil
  with digits_nonempty show ?thesis
    by simp
next
  case (Cons c S)
  then have "c \<in> set (digits n)"
    by simp
  then have "c \<noteq> 0x2D" and "c \<noteq> 0x2B"
    by (rule digits_plain)+
  with Cons have "parseSign (digits n) = map_option int (stripPrefix (digits n))"
    by simp
  then show ?thesis
    by (simp only: stripPrefix_digits option.map)
qed

lemma dropWhile_digits: "dropWhile isWhiteSpace (digits n) = digits n"
proof (cases "digits n")
  case Nil
  then show ?thesis by simp
next
  case (Cons c S)
  then have "c \<in> set (digits n)"
    by simp
  then have "\<not> isWhiteSpace c"
    by (rule digits_plain)
  with Cons show ?thesis
    by simp
qed

lemma parseInt_Number_toString: "parseInt (Number_toString i) = Some i"
proof (cases "i < 0")
  case True
  have "\<not> isWhiteSpace 0x2D"
    by (simp add: isWhiteSpace_def)
  with True show ?thesis
    by (simp add: parseInt_def Number_toString_def stripPrefix_digits)
next
  case False
  then show ?thesis
    by (simp add: parseInt_def Number_toString_def dropWhile_digits parseSign_digits)
qed

subsection \<open>Running a handler\<close>

lemma and_then_Inl: "and_then (Inl e) f = Inl e"
  by (simp add: and_then_def)

lemma and_then_Inr: "and_then (Inr x) f = f x"
  by (simp add: and_then_def)

lemma getTempDir_fields:
  "files (getTempDir s) = files s"
  "notifications (getTempDir s) = notifications s"
  "spawned (getTempDir s) = spawned s"
  "tmpdir (getTempDir s)"
  by (simp_all add: getTempDir_def)

lemma getTempDir_idem: "getTempDir (getTempDir s) = getTempDir s"
  by (simp add: getTempDir_def)

lemma getTempFile_Inr:
  "ToString v = Inr sid \<Longrightarrow> getTempFile v type s = Inr (file_name type sid, getTempDir s)"
  by (simp add: getTempFile_def)

lemma file_name_distinct:
  "file_name (str ''start'') a \<noteq> file_name (str ''prompt'') b"
  "file_name (str ''start'') a \<noteq> file_name (str ''window'') b"
  "file_name (str ''prompt'') a \<noteq> file_name (str ''window'') b"
  "file_name (str ''prompt'') a \<noteq> file_name (str ''start'') b"
  "file_name (str ''window'') a \<noteq> file_name (str ''start'') b"
  "file_name (str ''window'') a \<noteq> file_name (str ''prompt'') b"
  by (simp_all add: file_name_def str_def)

lemma sessionId_of_Inr:
  assumes "sessionId_of input = Inr sid"
  obtains v where "get input (str ''session_id'') = Inr v"
    and "ToString (or_json v (JStr (str ''default''))) = Inr sid"
  using assms by (auto simp: sessionId_of_def split: sum.splits)

subsection \<open>The example machine\<close>

lemma example_session: "sessionId_of (readStdin (Some example_stop)) = Inr (str ''s1'')"
  by (simp add: sessionId_of_def readStdin_def example_stop_def or_json_def str_def)

lemma example_start:
  "files example_state (file_name (str ''start'') (str ''s1'')) = Some (str ''1700000000000'')"
  by (simp add: example_state_def file_name_def str_def)






subsection \<open>The Stop hook\<close>

lemma checkDuration_unfold:
  assumes "sessionId_of (readStdin parsed) = Inr sid"
  shows "checkDuration h parsed s =
     (case files s (file_name (str ''start'') sid) of
        None \<Rightarrow> Inr (getTempDir s)
      | Some content \<Rightarrow>
          Inr (cleanup (file_name (str ''start'') sid) (file_name (str ''prompt'') sid)
                 (file_name (str ''window'') sid)
                 (checkDuration_notify h
                    (map_option (\<lambda>start. (now h - start) div 1000) (parseInt content))
                    (file_name (str ''prompt'') sid) (file_name (str ''window'') sid)
                    (getTempDir s))))"
proof -
  from assms obtain v where v: "get (readStdin parsed) (str ''session_id'') = Inr v"
    and sid: "ToString (or_json v (JStr (str ''default''))) = Inr sid"
    by (rule sessionId_of_Inr)
  show ?thesis
    by (simp add: checkDuration_def v and_then_Inr getTempFile_Inr [OF sid] getTempDir_idem
          getTempDir_fields Let_def split: option.split)
qed

lemma files_cleanup:
  "files (cleanup a b c s) = (\<lambda>f. if f = a \<or> f = b \<or> f = c then None else files s f)"
  by (auto simp: cleanup_def unlinkSync_def existsSync_def Let_def fun_eq_iff)

lemma notifications_cleanup: "notifications (cleanup a b c s) = notifications s"
  by (simp add: cleanup_def unlinkSync_def Let_def)

lemma files_checkDuration_notify: "files (checkDuration_notify h d p w s) = files s"
  by (simp add: checkDuration_notify_def notify_def split: option.splits)

lemma notifications_checkDuration_notify:
  "notifications (checkDuration_notify h d p w s) =
     (case d of
        None \<Rightarrow> notifications s
      | Some n \<Rightarrow>
          if 60 \<le> n then
            notifications s @
              [\<lparr>title = appName, message = checkDuration_message h n (files s p),
                icon = icon_exists h, sound = True, wait = True, timeout = 10,
                appID = appName, focus_windowId = files s w\<rparr>]
          else notifications s)"
  by (simp add: checkDuration_notify_def notify_def durationThreshold_def split: option.splits)



text \<open>
  C2.  When the start file of the session exists, \<open>checkDuration\<close> returns and the
  session's start, prompt and window files are all gone afterwards, whether it notified or
  not (and whatever the start file held).
\<close>

theorem checkDuration_deletes_fields:
  assumes "sessionId_of (readStdin parsed) = Inr sid"
    and "files s (file_name (str ''start'') sid) \<noteq> None"
  shows "\<exists>s'. checkDuration h parsed s = Inr s'
    \<and> files s' (file_name (str ''start'') sid) = None
    \<and> files s' (file_name (str ''prompt'') sid) = None
    \<and> files s' (file_name (str ''window'') sid) = None"
  using assms by (auto simp: checkDuration_unfold files_cleanup)

theorem checkDuration_deletes_fields_witness:
  "sessionId_of (readStdin (Some example_stop)) = Inr (str ''s1'')
   \<and> files example_state (file_name (str ''start'') (str ''s1'')) \<noteq> None
   \<and> (\<exists>s'. checkDuration example_host (Some example_stop) example_state = Inr s'
         \<and> files s' (str ''start-s1'') = None
         \<and> files s' (str ''prompt-s1'') = None
         \<and> files s' (str ''window-s1'') = None)"
proof -
  have start: "files example_state (file_name (str ''start'') (str ''s1'')) \<noteq> None"
    by (simp add: example_start)
  have names: "file_name (str ''start'') (str ''s1'') = str ''start-s1''"
    "file_name (str ''prompt'') (str ''s1'') = str ''prompt-s1''"
    "file_name (str ''window'') (str ''s1'') = str ''window-s1''"
    by (simp_all add: file_name_def str_def)
  from checkDuration_deletes_fields [OF example_session start, of example_host]
  show ?thesis
    using example_session start by (simp only: names) simp
qed

text \<open>
  C3.  When the session has no start file, \<open>checkDuration\<close> returns without an error and
  without a notification, and no file is written or deleted: the files, the
  notifications and the spawned processes are as before.  (The only thing it may do is
  create the notifier's directory, which \<open>getTempFile\<close> does on first use.)
\<close>

theorem checkDuration_without_start:
  assumes "sessionId_of (readStdin parsed) = Inr sid"
    and "files s (file_name (str ''start'') sid) = None"
  shows "\<exists>s'. checkDuration h parsed s = Inr s'
    \<and> files s' = files s \<and> notifications s' = notifications s \<and> spawned s' = spawned s"
  using assms by (simp add: checkDuration_unfold getTempDir_fields)

theorem checkDuration_without_start_witness:
  "sessionId_of (readStdin None) = Inr (str ''default'')
   \<and> files empty_state (file_name (str ''start'') (str ''default'')) = None
   \<and> (\<exists>s'. checkDuration example_host None empty_state = Inr s'
         \<and> files s' = Map.empty \<and> notifications s' = [] \<and> spawned s' = [])"
proof -
  have session: "sessionId_of (readStdin None) = Inr (str ''default'')"
    by (simp add: sessionId_of_def readStdin_def or_json_def)
  have start: "files empty_state (file_name (str ''start'') (str ''default'')) = None"
    by (simp add: empty_state_def)
  from checkDuration_without_start [OF session start, of example_host]
  show ?thesis
    using session start by (simp add: empty_state_def)
qed

subsection \<open>Payloads that follow the schema\<close>

lemma string_or_absent_cases:
  assumes "string_or_absent v"
  obtains "v = None" | s where "v = Some (JStr s)"
  using assms by (cases v rule: string_or_absent.cases) auto





lemma malformed_input_defaults:
  "readStdin None = JObj []"
  "sessionId_of (readStdin None) = Inr (str ''default'')"
  "permission_payload (readStdin None)"
  "get (readStdin None) (str ''prompt'') = Inr None"
  by (simp_all add: readStdin_def sessionId_of_def or_json_def)

subsection \<open>The UserPromptSubmit hook\<close>

lemma files_write_window:
  "files (write_window w f s) = (if truthy_str w then (files s)(f := w) else files s)"
  by (cases w) (auto simp: write_window_def writeFileSync_def)

lemma write_prompt_string:
  "string_or_absent prompt \<Longrightarrow>
   write_prompt (or_json prompt (JStr [])) f s =
     Inr (if text_of prompt \<noteq> [] then writeFileSync f (take 50 (text_of prompt)) s else s)"
  by (erule string_or_absent_cases) (auto simp: write_prompt_def or_json_def and_then_def)

lemma startTimer_unfold:
  assumes "sessionId_of (readStdin parsed) = Inr sid"
    and "get (readStdin parsed) (str ''prompt'') = Inr prompt"
    and "string_or_absent prompt"
  shows "startTimer h parsed s =
     Inr (write_window (getTerminalWindowId h) (file_name (str ''window'') sid)
            (let s4 = writeFileSync (file_name (str ''start'') sid) (Number_toString (now h))
                        (getTempDir s)
             in if text_of prompt \<noteq> []
                then writeFileSync (file_name (str ''prompt'') sid) (take 50 (text_of prompt)) s4
                else s4))"
proof -
  from assms(1) obtain v where v: "get (readStdin parsed) (str ''session_id'') = Inr v"
    and sid: "ToString (or_json v (JStr (str ''default''))) = Inr sid"
    by (rule sessionId_of_Inr)
  show ?thesis
    by (simp add: startTimer_def v assms(2) and_then_Inr getTempFile_Inr [OF sid] getTempDir_idem
          write_prompt_string [OF assms(3)] Let_def)
qed







subsection \<open>From prompt to stop\<close>

text \<open>
  A session started by \<open>startTimer\<close> on one host clock and stopped by \<open>checkDuration\<close> on a
  later one: the duration is the difference of the two clocks in whole seconds, and the
  excerpt shown is the one \<open>startTimer\<close> stored.
\<close>

lemma notifications_write_window: "notifications (write_window w f s) = notifications s"
  by (cases w) (auto simp: write_window_def writeFileSync_def)

lemma started_files:
  assumes "sessionId_of (readStdin parsed) = Inr sid"
    and "get (readStdin parsed) (str ''prompt'') = Inr prompt"
    and "string_or_absent prompt"
    and "startTimer h parsed s = Inr s'"
  shows "files s' (file_name (str ''start'') sid) = Some (Number_toString (now h))"
    and "files s' (file_name (str ''prompt'') sid) =
           (if text_of prompt \<noteq> [] then Some (take 50 (text_of prompt))
            else files s (file_name (str ''prompt'') sid))"
    and "notifications s' = notifications s"
  using assms(4) unfolding startTimer_unfold [OF assms(1-3)]
  by (auto simp: files_write_window notifications_write_window writeFileSync_def
        getTempDir_fields file_name_distinct Let_def)

lemma started_then_stopped:
  assumes "sessionId_of (readStdin submitted) = Inr sid"
    and "get (readStdin submitted) (str ''prompt'') = Inr prompt"
    and "string_or_absent prompt"
    and "startTimer h submitted s = Inr s1"
    and "sessionId_of (readStdin stopped) = Inr sid"
  shows "\<exists>s2. checkDuration h' stopped s1 = Inr s2 \<and>
    (let d = (now h' - now h) div 1000;
         excerpt = (if text_of prompt \<noteq> [] then Some (take 50 (text_of prompt))
                    else files s (file_name (str ''prompt'') sid))
     in if 60 \<le> d
        then \<exists>n. notifications s2 = notifications s @ [n]
               \<and> message n = checkDuration_message h' d excerpt
        else notifications s2 = notifications s)"
  using started_files [OF assms(1-4)]
  by (simp add: checkDuration_unfold [OF assms(5)] parseInt_Number_toString
        notifications_cleanup notifications_checkDuration_notify getTempDir_fields Let_def)

subsection \<open>The PermissionRequest hook\<close>













subsection \<open>Standard input\<close>

text \<open>
  C7.  Text that does not parse becomes the empty object, and a payload without
  \<^verbatim>\<open>session_id\<close> names the session \<^verbatim>\<open>default\<close> (\<open>malformed_input_defaults\<close>).  But the
  text \<^verbatim>\<open>null\<close> parses, to a value without properties: each handler throws a
  \<^verbatim>\<open>TypeError\<close> at its first property read and does nothing else.
\<close>

theorem null_payload_throws:
  "startTimer h (Some JNull) s = Inl TypeError
   \<and> checkDuration h (Some JNull) s = Inl TypeError
   \<and> permissionRequest h (Some JNull) s = Inl TypeError"
  by (simp add: startTimer_def checkDuration_def permissionRequest_def readStdin_def and_then_Inl)

subsection \<open>Locale\<close>















subsection \<open>Terminal focus\<close>




end
